theory Spec2Isabelle
  imports Complex_Main "HOL-Library.Sublist"
begin

section \<open>Data model (schemas.py)\<close>

text \<open>
  The two pydantic models the matcher reads. Every \<open>Optional[t]\<close> field is a
  \<open>t option\<close>, with \<open>None\<close> for Python's \<open>None\<close>. Ages and the dependents count are
  Python ints (\<open>int\<close>). The two income fields are Python floats; the validation
  bound \<open>ge=0\<close> rejects NaN, and the matcher only compares them with \<open>\<le>\<close>, so they are
  modelled as \<open>real\<close>. Strings are \<open>string\<close>. The fields of \<open>Inquiry\<close> carry the
  prefix \<open>p_\<close> (the source's variable is \<open>profile\<close>), since \<open>location\<close> and \<open>tags\<close>
  occur in both classes.
\<close>

record Benefit =
  name :: string
  agency :: "string option"
  description :: string
  category :: string
  url :: "string option"
  eligibility_notes :: "string option"
  min_age :: "int option"
  max_age :: "int option"
  max_income :: "real option"
  location :: "string option"
  requires_disability :: "bool option"
  requires_veteran :: "bool option"
  requires_dependents :: "bool option"
  tags :: "string list option"

record Inquiry =
  p_age :: "int option"
  p_income :: "real option"
  p_location :: "string option"
  p_disability :: "bool option"
  p_veteran :: "bool option"
  p_dependents :: "int option"
  p_employment_status :: "string option"
  p_housing_status :: "string option"
  p_tags :: "string list option"

section \<open>Python truthiness and \<open>str.lower\<close>\<close>

text \<open>
  \<open>if x\<close> on an optional string, bool or list: \<open>None\<close>, the empty string, \<open>False\<close>
  and the empty list are falsy.
\<close>

fun truthy_str :: "string option \<Rightarrow> bool" where
  "truthy_str None = False"
| "truthy_str (Some s) = (s \<noteq> [])"

fun truthy_bool :: "bool option \<Rightarrow> bool" where
  "truthy_bool None = False"
| "truthy_bool (Some v) = v"

fun truthy_list :: "'a list option \<Rightarrow> bool" where
  "truthy_list None = False"
| "truthy_list (Some xs) = (xs \<noteq> [])"

text \<open>
  \<open>str.lower\<close> is modelled on ASCII text, where it moves each of the letters \<open>A\<close> to
  \<open>Z\<close> to its lower-case letter and leaves every other character. Python lowers
  the characters beyond ASCII by the Unicode tables, which are not modelled: what
  \<open>lower\<close> returns on a string that is not \<open>is_ascii\<close> says nothing about the code, and
  a statement that depends on the value of \<open>lower\<close> is made for ASCII strings only.
\<close>

definition is_ascii :: "string \<Rightarrow> bool" where
  "is_ascii s = list_all (\<lambda>c. of_char c < (128::nat)) s"

definition lower_char :: "char \<Rightarrow> char" where
  "lower_char c =
     (case map_of (zip ''ABCDEFGHIJKLMNOPQRSTUVWXYZ'' ''abcdefghijklmnopqrstuvwxyz'') c of
        Some l \<Rightarrow> l
      | None \<Rightarrow> c)"

definition lower :: "string \<Rightarrow> string" where
  "lower s = map lower_char s"

section \<open>The matcher (main.py, match_benefits)\<close>

text \<open>
  The body of the \<open>for b in benefits\<close> loop up to the accept check. \<open>None\<close> is a
  \<open>continue\<close> (the benefit is skipped); \<open>Some score\<close> is the value of \<open>score\<close> when
  control reaches \<open>if score >= 0\<close>.
\<close>

definition eval_benefit :: "Inquiry \<Rightarrow> Benefit \<Rightarrow> int option" where
  "eval_benefit profile b =
     (case (if p_income profile \<noteq> None \<and> max_income b \<noteq> None
            then (if the (p_income profile) \<le> the (max_income b)
                  then Some (0 + 2) else None)
            else Some (0::int)) of
        None \<Rightarrow> None
      | Some score \<Rightarrow>
          if min_age b \<noteq> None \<and> p_age profile \<noteq> None
             \<and> the (p_age profile) < the (min_age b) then None
          else if max_age b \<noteq> None \<and> p_age profile \<noteq> None
             \<and> the (p_age profile) > the (max_age b) then None
          else if truthy_str (location b) \<and> truthy_str (p_location profile)
             \<and> lower (the (location b)) \<noteq> lower (the (p_location profile)) then None
          else if truthy_bool (requires_disability b)
             \<and> \<not> truthy_bool (p_disability profile) then None
          else if truthy_bool (requires_veteran b)
             \<and> \<not> truthy_bool (p_veteran profile) then None
          else if truthy_bool (requires_dependents b)
             \<and> (p_dependents profile = None \<or> p_dependents profile = Some 0) then None
          else if truthy_list (p_tags profile) \<and> truthy_list (tags b)
          then (let shared = set (map lower (the (p_tags profile)))
                               \<inter> set (map lower (the (tags b)))
                in if shared \<noteq> {} then Some (score + 1) else Some score)
          else Some score)"

text \<open>The accept check \<open>if score >= 0\<close> for one benefit.\<close>

definition accepted :: "Inquiry \<Rightarrow> Benefit \<Rightarrow> bool" where
  "accepted profile b =
     (case eval_benefit profile b of None \<Rightarrow> False | Some score \<Rightarrow> score \<ge> 0)"

text \<open>
  The loop itself, with the list \<open>matches\<close> as accumulator: an accepted benefit is
  appended, any other is skipped.
\<close>

fun match_loop :: "Inquiry \<Rightarrow> Benefit list \<Rightarrow> Benefit list \<Rightarrow> Benefit list" where
  "match_loop profile [] matches = matches"
| "match_loop profile (b # benefits) matches =
     (if accepted profile b then match_loop profile benefits (matches @ [b])
      else match_loop profile benefits matches)"

section \<open>The hard rules\<close>

text \<open>
  One predicate for each \<open>continue\<close> of the loop body: the condition under which that
  statement is the one that skips the benefit, read off the seven guards in their
  order (income, minimum age, maximum age, location, disability, veteran,
  dependents). A benefit is hard-excluded when one of them holds.
\<close>

definition income_excludes :: "Inquiry \<Rightarrow> Benefit \<Rightarrow> bool" where
  "income_excludes profile b =
     (case (p_income profile, max_income b) of
        (Some i, Some m) \<Rightarrow> \<not> i \<le> m
      | _ \<Rightarrow> False)"

definition min_age_excludes :: "Inquiry \<Rightarrow> Benefit \<Rightarrow> bool" where
  "min_age_excludes profile b =
     (case (min_age b, p_age profile) of
        (Some lo, Some a) \<Rightarrow> a < lo
      | _ \<Rightarrow> False)"

definition max_age_excludes :: "Inquiry \<Rightarrow> Benefit \<Rightarrow> bool" where
  "max_age_excludes profile b =
     (case (max_age b, p_age profile) of
        (Some hi, Some a) \<Rightarrow> a > hi
      | _ \<Rightarrow> False)"

definition location_excludes :: "Inquiry \<Rightarrow> Benefit \<Rightarrow> bool" where
  "location_excludes profile b =
     (case (location b, p_location profile) of
        (Some bl, Some pl) \<Rightarrow> bl \<noteq> [] \<and> pl \<noteq> [] \<and> lower bl \<noteq> lower pl
      | _ \<Rightarrow> False)"

definition disability_excludes :: "Inquiry \<Rightarrow> Benefit \<Rightarrow> bool" where
  "disability_excludes profile b =
     (requires_disability b = Some True \<and> p_disability profile \<noteq> Some True)"

definition veteran_excludes :: "Inquiry \<Rightarrow> Benefit \<Rightarrow> bool" where
  "veteran_excludes profile b =
     (requires_veteran b = Some True \<and> p_veteran profile \<noteq> Some True)"

definition dependents_excludes :: "Inquiry \<Rightarrow> Benefit \<Rightarrow> bool" where
  "dependents_excludes profile b =
     (requires_dependents b = Some True
      \<and> (p_dependents profile = None \<or> p_dependents profile = Some 0))"

definition hard_excluded :: "Inquiry \<Rightarrow> Benefit \<Rightarrow> bool" where
  "hard_excluded profile b =
     (income_excludes profile b \<or> min_age_excludes profile b \<or> max_age_excludes profile b
      \<or> location_excludes profile b \<or> disability_excludes profile b
      \<or> veteran_excludes profile b \<or> dependents_excludes profile b)"

section \<open>Storage and the endpoints (main.py)\<close>

text \<open>
  The process-wide handle \<open>db\<close> is \<open>None\<close> when storage is not configured; otherwise
  it holds the documents of the collection \<open>benefit\<close>, the only collection the code
  touches, in storage order. Documents are kept as \<open>Benefit\<close> records (the \<open>_id\<close> key
  that \<open>list_benefits\<close> pops is not modelled). \<open>accesses\<close> logs every read and write
  that reaches the store, so that "no access was attempted" can be stated.
\<close>

datatype access = Count_documents | Insert_document | Find_documents

record storage =
  db :: "Benefit list option"
  accesses :: "access list"

datatype error = HTTPException int string | Storage_unavailable | ValidationError

record SeedResult =
  inserted :: int

text \<open>
  The \<open>Field\<close> bounds of \<open>Benefit\<close> in schemas.py, which \<open>Benefit(**d)\<close> checks on a
  stored document: both ages in 0 to 120, \<open>max_income\<close> not negative. An absent
  field passes.
\<close>

definition valid_benefit :: "Benefit \<Rightarrow> bool" where
  "valid_benefit d =
     ((case min_age d of None \<Rightarrow> True | Some a \<Rightarrow> 0 \<le> a \<and> a \<le> 120)
      \<and> (case max_age d of None \<Rightarrow> True | Some a \<Rightarrow> 0 \<le> a \<and> a \<le> 120)
      \<and> (case max_income d of None \<Rightarrow> True | Some m \<Rightarrow> 0 \<le> m))"

text \<open>
  Modelled from the spec: \<open>database.get_documents\<close> is not among the sources. The spec
  (sections 4.1 and 6) has it return up to \<open>limit\<close> records of the collection in
  storage order, and any storage-dependent operation signal "storage unavailable"
  when the handle is not configured, before any read. No limit returns every record.
\<close>

definition get_documents :: "int option \<Rightarrow> storage \<Rightarrow> (error + Benefit list) \<times> storage" where
  "get_documents limit st =
     (case db st of
        None \<Rightarrow> (Inl Storage_unavailable, st)
      | Some docs \<Rightarrow>
          (Inr (case limit of None \<Rightarrow> docs | Some n \<Rightarrow> take (nat n) docs),
           st\<lparr>accesses := accesses st @ [Find_documents]\<rparr>))"

text \<open>
  Modelled from the spec: \<open>database.create_document\<close> is not among the sources. The
  spec (section 6) has seeding insert records into the benefit catalog: one call
  adds the record at the end of the collection, and signals "storage unavailable"
  when the handle is not configured.
\<close>

definition create_document :: "Benefit \<Rightarrow> storage \<Rightarrow> (error + unit) \<times> storage" where
  "create_document item st =
     (case db st of
        None \<Rightarrow> (Inl Storage_unavailable, st)
      | Some docs \<Rightarrow>
          (Inr (), st\<lparr>db := Some (docs @ [item]),
                      accesses := accesses st @ [Insert_document]\<rparr>))"

text \<open>\<open>db["benefit"].count_documents({})\<close> on a configured handle.\<close>

definition count_documents :: "Benefit list \<Rightarrow> storage \<Rightarrow> int \<times> storage" where
  "count_documents docs st =
     (int (length docs), st\<lparr>accesses := accesses st @ [Count_documents]\<rparr>)"

text \<open>The four records of \<open>seed_data\<close>; fields not given take the schema's default \<open>None\<close>.\<close>

definition seed_data :: "Benefit list" where
  "seed_data =
     [\<lparr>name = ''SNAP (Food Assistance)'',
       agency = Some ''USDA'',
       description = ''Monthly funds on an EBT card to help buy groceries.'',
       category = ''food'',
       url = Some ''https://www.fns.usda.gov/snap'',
       eligibility_notes = Some ''Based on household size, income, and expenses.'',
       min_age = None, max_age = None, max_income = Some 30000, location = None,
       requires_disability = None, requires_veteran = None, requires_dependents = None,
       tags = Some [''low-income'', ''household'']\<rparr>,
      \<lparr>name = ''Medicaid'',
       agency = Some ''State Medicaid Agency'',
       description = ''Free or low-cost health coverage for eligible individuals.'',
       category = ''healthcare'',
       url = Some ''https://www.medicaid.gov/'',
       eligibility_notes =
         Some ''Based on income, disability, pregnancy, and other factors.'',
       min_age = None, max_age = None, max_income = Some 28000, location = None,
       requires_disability = None, requires_veteran = None, requires_dependents = None,
       tags = Some [''health'', ''low-income'']\<rparr>,
      \<lparr>name = ''Pell Grant'',
       agency = Some ''U.S. Department of Education'',
       description = ''Grant to help pay for college, does not need to be repaid.'',
       category = ''education'',
       url = Some ''https://studentaid.gov/understand-aid/types/grants/pell'',
       eligibility_notes =
         Some ''Undergraduate students with exceptional financial need.'',
       min_age = Some 16, max_age = None, max_income = Some 60000, location = None,
       requires_disability = None, requires_veteran = None, requires_dependents = None,
       tags = Some [''students'', ''education'']\<rparr>,
      \<lparr>name = ''Section 8 Housing Choice Voucher'',
       agency = Some ''HUD'',
       description = ''Rental assistance vouchers for low-income families.'',
       category = ''housing'',
       url = Some ''https://www.hud.gov/'',
       eligibility_notes = Some ''Waitlists common; based on income and family size.'',
       min_age = None, max_age = None, max_income = Some 35000, location = None,
       requires_disability = None, requires_veteran = None,
       requires_dependents = Some True,
       tags = Some [''housing'', ''family'']\<rparr>]"

text \<open>The loop \<open>for item in seed_data\<close>, counting in \<open>inserted\<close>.\<close>

fun seed_loop :: "Benefit list \<Rightarrow> int \<Rightarrow> storage \<Rightarrow> (error + int) \<times> storage" where
  "seed_loop [] n st = (Inr n, st)"
| "seed_loop (item # items) n st =
     (case create_document item st of
        (Inl e, st') \<Rightarrow> (Inl e, st')
      | (Inr _, st') \<Rightarrow> seed_loop items (n + 1) st')"

definition seed_benefits :: "storage \<Rightarrow> (error + SeedResult) \<times> storage" where
  "seed_benefits st =
     (case db st of
        None \<Rightarrow> (Inl (HTTPException 500 ''Database not configured''), st)
      | Some docs \<Rightarrow>
          (case count_documents docs st of
             (existing, st1) \<Rightarrow>
               if existing > 0 then (Inr \<lparr>inserted = 0\<rparr>, st1)
               else (case seed_loop seed_data 0 st1 of
                       (Inl e, st2) \<Rightarrow> (Inl e, st2)
                     | (Inr n, st2) \<Rightarrow> (Inr \<lparr>inserted = n\<rparr>, st2))))"

text \<open>
  The loop of \<open>list_benefits\<close>: each document is rebuilt by \<open>Benefit(**d)\<close> and
  appended to \<open>cleaned\<close>; a document that breaks the schema raises, and the loop
  stops there.
\<close>

fun clean_loop :: "Benefit list \<Rightarrow> Benefit list \<Rightarrow> error + Benefit list" where
  "clean_loop [] cleaned = Inr cleaned"
| "clean_loop (d # docs) cleaned =
     (if valid_benefit d then clean_loop docs (cleaned @ [d]) else Inl ValidationError)"

definition list_benefits :: "int option \<Rightarrow> storage \<Rightarrow> (error + Benefit list) \<times> storage" where
  "list_benefits limit st =
     (case get_documents limit st of
        (Inl e, st') \<Rightarrow> (Inl e, st')
      | (Inr docs, st') \<Rightarrow>
          (case clean_loop docs [] of
             Inl e \<Rightarrow> (Inl e, st')
           | Inr cleaned \<Rightarrow> (Inr cleaned, st')))"

text \<open>
  The endpoint: the guard on the handle, the fetch with the default limit 50, then
  the loop.
\<close>

definition match_benefits :: "Inquiry \<Rightarrow> storage \<Rightarrow> (error + Benefit list) \<times> storage" where
  "match_benefits profile st =
     (if db st = None then (Inl (HTTPException 500 ''Database not configured''), st)
      else (case list_benefits (Some 50) st of
              (Inl e, st') \<Rightarrow> (Inl e, st')
            | (Inr benefits, st') \<Rightarrow> (Inr (match_loop profile benefits []), st')))"

section \<open>Sample inputs\<close>

text \<open>
  The schema defaults: a benefit with only its required fields and no eligibility
  signal, and a profile with no field set. The tag lists default to the empty list.
\<close>

definition plain_benefit :: Benefit where
  "plain_benefit =
     \<lparr>name = ''Plain'', agency = None, description = ''No constraint'',
      category = ''food'', url = None, eligibility_notes = None,
      min_age = None, max_age = None, max_income = None, location = None,
      requires_disability = None, requires_veteran = None, requires_dependents = None,
      tags = Some []\<rparr>"

definition blank_profile :: Inquiry where
  "blank_profile =
     \<lparr>p_age = None, p_income = None, p_location = None, p_disability = None,
      p_veteran = None, p_dependents = None, p_employment_status = None,
      p_housing_status = None, p_tags = Some []\<rparr>"

section \<open>The loop is a filter, and the guards are the hard rules\<close>

lemmas rule_defs = income_excludes_def min_age_excludes_def max_age_excludes_def
  location_excludes_def disability_excludes_def veteran_excludes_def dependents_excludes_def

lemma truthy_bool_iff: "truthy_bool x \<longleftrightarrow> x = Some True"
  by (cases x) simp_all

lemma match_loop_filter: "match_loop profile bs acc = acc @ filter (accepted profile) bs"
  by (induction bs arbitrary: acc) simp_all

text \<open>Each rule predicate is the guard of its \<open>continue\<close>, as the source writes it.\<close>

lemma income_guard:
  "income_excludes profile b \<longleftrightarrow>
     (p_income profile \<noteq> None \<and> max_income b \<noteq> None)
     \<and> \<not> the (p_income profile) \<le> the (max_income b)"
  by (cases "p_income profile"; cases "max_income b") (simp_all add: income_excludes_def)

lemma min_age_guard:
  "min_age_excludes profile b \<longleftrightarrow>
     min_age b \<noteq> None \<and> p_age profile \<noteq> None \<and> the (p_age profile) < the (min_age b)"
  by (cases "p_age profile"; cases "min_age b") (simp_all add: min_age_excludes_def)

lemma max_age_guard:
  "max_age_excludes profile b \<longleftrightarrow>
     max_age b \<noteq> None \<and> p_age profile \<noteq> None \<and> the (p_age profile) > the (max_age b)"
  by (cases "p_age profile"; cases "max_age b") (simp_all add: max_age_excludes_def)

lemma location_guard:
  "location_excludes profile b \<longleftrightarrow>
     truthy_str (location b) \<and> truthy_str (p_location profile)
     \<and> lower (the (location b)) \<noteq> lower (the (p_location profile))"
  by (cases "location b"; cases "p_location profile") (simp_all add: location_excludes_def)

lemma disability_guard:
  "disability_excludes profile b \<longleftrightarrow>
     truthy_bool (requires_disability b) \<and> \<not> truthy_bool (p_disability profile)"
  by (simp add: disability_excludes_def truthy_bool_iff)

lemma veteran_guard:
  "veteran_excludes profile b \<longleftrightarrow>
     truthy_bool (requires_veteran b) \<and> \<not> truthy_bool (p_veteran profile)"
  by (simp add: veteran_excludes_def truthy_bool_iff)

lemma dependents_guard:
  "dependents_excludes profile b \<longleftrightarrow>
     truthy_bool (requires_dependents b)
     \<and> (p_dependents profile = None \<or> p_dependents profile = Some 0)"
  by (simp add: dependents_excludes_def truthy_bool_iff)

lemmas guards = income_guard min_age_guard max_age_guard location_guard
  disability_guard veteran_guard dependents_guard

text \<open>
  The shape of the loop body over opaque conditions: it skips exactly when one of
  the seven guards fires, and otherwise reaches the accept check with a score that
  was only ever incremented.
\<close>

lemma guard_chain:
  "\<exists>s\<ge>0.
     (case (if a then (if le then Some (0 + 2) else None) else Some (0::int)) of
        None \<Rightarrow> None
      | Some score \<Rightarrow>
          if g2 then None else if g3 then None else if g4 then None
          else if g5 then None else if g6 then None else if g7 then None
          else if t then (if sh then Some (score + 1) else Some score) else Some score)
     = (if (a \<and> \<not> le) \<or> g2 \<or> g3 \<or> g4 \<or> g5 \<or> g6 \<or> g7 then None else Some s)"
  by (cases a; cases le; simp) auto

lemma eval_benefit_cases:
  "\<exists>s\<ge>0. eval_benefit profile b = (if hard_excluded profile b then None else Some s)"
  unfolding eval_benefit_def Let_def hard_excluded_def guards
  by (rule guard_chain)

lemma eval_benefit_nonneg: "eval_benefit profile b = Some score \<Longrightarrow> 0 \<le> score"
  using eval_benefit_cases [of profile b] by (auto split: if_splits)

lemma reached_iff_not_excluded:
  "eval_benefit profile b \<noteq> None \<longleftrightarrow> \<not> hard_excluded profile b"
  using eval_benefit_cases [of profile b] by (auto split: if_splits)

lemma accepted_iff_reached: "accepted profile b \<longleftrightarrow> eval_benefit profile b \<noteq> None"
  using eval_benefit_nonneg [of profile b]
  by (auto simp: accepted_def split: option.splits)

lemma accepted_iff_not_excluded: "accepted profile b \<longleftrightarrow> \<not> hard_excluded profile b"
  using accepted_iff_reached reached_iff_not_excluded by blast

lemma in_match_loop_iff:
  "b \<in> set (match_loop profile catalog []) \<longleftrightarrow> b \<in> set catalog \<and> \<not> hard_excluded profile b"
  by (auto simp: match_loop_filter accepted_iff_not_excluded)

lemma not_in_match_loop:
  "hard_excluded profile b \<Longrightarrow> b \<notin> set (match_loop profile catalog [])"
  by (simp add: in_match_loop_iff)

text \<open>
  A rule that does not fire is inert: the outcome is the one the benefit would have
  with the rule's fields absent.
\<close>

lemma income_inert:
  "\<not> income_excludes profile b \<Longrightarrow>
     accepted profile b = accepted (profile\<lparr>p_income := None\<rparr>) (b\<lparr>max_income := None\<rparr>)"
  by (simp add: accepted_iff_not_excluded hard_excluded_def rule_defs)

lemma min_age_inert:
  "\<not> min_age_excludes profile b \<Longrightarrow>
     accepted profile b = accepted profile (b\<lparr>min_age := None\<rparr>)"
  by (simp add: accepted_iff_not_excluded hard_excluded_def rule_defs)

lemma max_age_inert:
  "\<not> max_age_excludes profile b \<Longrightarrow>
     accepted profile b = accepted profile (b\<lparr>max_age := None\<rparr>)"
  by (simp add: accepted_iff_not_excluded hard_excluded_def rule_defs)

lemma location_inert:
  "\<not> location_excludes profile b \<Longrightarrow>
     accepted profile b = accepted (profile\<lparr>p_location := None\<rparr>) (b\<lparr>location := None\<rparr>)"
  by (simp add: accepted_iff_not_excluded hard_excluded_def rule_defs)

lemma dependents_inert:
  "\<not> dependents_excludes profile b \<Longrightarrow>
     accepted profile b = accepted profile (b\<lparr>requires_dependents := None\<rparr>)"
  by (simp add: accepted_iff_not_excluded hard_excluded_def rule_defs)

lemma accepted_tags:
  "accepted (profile\<lparr>p_tags := t\<rparr>) (b\<lparr>tags := u\<rparr>) = accepted profile b"
  by (simp add: accepted_iff_not_excluded hard_excluded_def rule_defs)

text \<open>
  A benefit without any eligibility signal is accepted for every profile.
\<close>

lemma accepted_plain: "accepted profile plain_benefit"
  by (simp add: accepted_iff_not_excluded hard_excluded_def rule_defs plain_benefit_def
      split: option.splits)

section \<open>Storage runs\<close>

lemma seed_loop_run:
  "db st = Some docs \<Longrightarrow>
     seed_loop items n st =
       (Inr (n + int (length items)),
        st\<lparr>db := Some (docs @ items),
           accesses := accesses st @ replicate (length items) Insert_document\<rparr>)"
proof (induction items arbitrary: n st docs)
  case Nil
  then show ?case by simp
next
  case (Cons item items)
  then show ?case
    by (simp add: create_document_def replicate_append_same)
qed

lemma clean_loop_valid:
  "list_all valid_benefit docs \<Longrightarrow> clean_loop docs cleaned = Inr (cleaned @ docs)"
  by (induction docs arbitrary: cleaned) simp_all

lemma clean_loop_invalid:
  "\<not> list_all valid_benefit docs \<Longrightarrow> clean_loop docs cleaned = Inl ValidationError"
  by (induction docs arbitrary: cleaned) simp_all

text \<open>
  On a configured handle the endpoint runs the loop on the first 50 documents when
  they all pass the schema, and fails on the validation otherwise.
\<close>

lemma match_benefits_configured:
  "db st = Some docs \<Longrightarrow> list_all valid_benefit (take 50 docs) \<Longrightarrow>
     match_benefits profile st =
       (Inr (match_loop profile (take 50 docs) []),
        st\<lparr>accesses := accesses st @ [Find_documents]\<rparr>)"
  by (simp add: match_benefits_def list_benefits_def get_documents_def clean_loop_valid)

lemma match_benefits_invalid:
  "db st = Some docs \<Longrightarrow> \<not> list_all valid_benefit (take 50 docs) \<Longrightarrow>
     match_benefits profile st =
       (Inl ValidationError, st\<lparr>accesses := accesses st @ [Find_documents]\<rparr>)"
  by (simp add: match_benefits_def list_benefits_def get_documents_def clean_loop_invalid)

section \<open>The result of the loop\<close>

text \<open>
  On the seed catalog, a profile of age 20 with income 45000 keeps the Pell Grant
  only; its score at the accept check is 2.
\<close>

lemma seed_pell_score:
  "eval_benefit (blank_profile\<lparr>p_age := Some 20, p_income := Some 45000\<rparr>) (seed_data ! 2) = Some 2"
  by (simp add: eval_benefit_def blank_profile_def seed_data_def)

lemma seed_match_45000:
  "filter (\<lambda>b. \<not> hard_excluded (blank_profile\<lparr>p_age := Some 20, p_income := Some 45000\<rparr>) b) seed_data
     = [seed_data ! 2]"
  by (simp add: hard_excluded_def rule_defs blank_profile_def seed_data_def)

text \<open>
  C1. For every profile and every catalog, the loop returns exactly the benefits of
  the catalog that no hard rule excludes, in catalog order. Whenever control reaches
  the accept check the score is at least 0, so a benefit is accepted exactly when it
  reaches the check: the score never decides.
\<close>

theorem match_is_hard_rule_filter:
  "match_loop profile catalog [] = filter (\<lambda>b. \<not> hard_excluded profile b) catalog
   \<and> (\<forall>b score. eval_benefit profile b = Some score \<longrightarrow> 0 \<le> score)
   \<and> (\<forall>b. accepted profile b \<longleftrightarrow> eval_benefit profile b \<noteq> None)"
proof -
  have "accepted profile = (\<lambda>b. \<not> hard_excluded profile b)"
    by (rule ext) (rule accepted_iff_not_excluded)
  then have "match_loop profile catalog [] = filter (\<lambda>b. \<not> hard_excluded profile b) catalog"
    by (simp add: match_loop_filter)
  then show ?thesis
    using eval_benefit_nonneg accepted_iff_reached by blast
qed


theorem match_is_hard_rule_filter_witness:
  "eval_benefit (blank_profile\<lparr>p_age := Some 20, p_income := Some 45000\<rparr>) (seed_data ! 2) = Some 2
   \<and> (0::int) \<le> 2
   \<and> match_loop (blank_profile\<lparr>p_age := Some 20, p_income := Some 45000\<rparr>) seed_data []
       = [seed_data ! 2]"
  using match_is_hard_rule_filter
    [of "blank_profile\<lparr>p_age := Some 20, p_income := Some 45000\<rparr>" seed_data]
  by (simp add: seed_pell_score seed_match_45000)

lemma count_list_filter_le: "count_list (filter P xs) x \<le> count_list xs x"
  by (induction xs) simp_all

text \<open>
  C8. The result is a subsequence of the catalog: every returned benefit is in the
  catalog, the survivors keep their relative order, and no benefit occurs more
  often in the result than in the catalog.
\<close>

theorem match_subsequence:
  "subseq (match_loop profile catalog []) catalog
   \<and> set (match_loop profile catalog []) \<subseteq> set catalog
   \<and> (\<forall>b. count_list (match_loop profile catalog []) b \<le> count_list catalog b)"
  by (simp add: match_loop_filter count_list_filter_le)

theorem match_subsequence_witness:
  "subseq (match_loop (blank_profile\<lparr>p_age := Some 20, p_income := Some 45000\<rparr>) seed_data [])
     seed_data"
  using match_subsequence
    [of "blank_profile\<lparr>p_age := Some 20, p_income := Some 45000\<rparr>" seed_data]
  by simp

section \<open>The hard rules one by one\<close>

text \<open>
  C2. With both incomes present, an income above \<open>max_income\<close> keeps the benefit out of
  the result whatever the other fields are; an income up to and including the bound
  does not exclude, and neither does a missing side: the outcome is then the one
  obtained with both income fields absent.
\<close>

theorem income_rule:
  "(p_income profile = Some i \<and> max_income b = Some m \<and> i > m \<longrightarrow>
      \<not> accepted profile b \<and> b \<notin> set (match_loop profile catalog []))
   \<and> (p_income profile = Some i \<and> max_income b = Some m \<and> i \<le> m \<longrightarrow>
      \<not> income_excludes profile b
      \<and> accepted profile b = accepted (profile\<lparr>p_income := None\<rparr>) (b\<lparr>max_income := None\<rparr>))
   \<and> (p_income profile = None \<or> max_income b = None \<longrightarrow>
      \<not> income_excludes profile b
      \<and> accepted profile b = accepted (profile\<lparr>p_income := None\<rparr>) (b\<lparr>max_income := None\<rparr>))"
proof (intro conjI impI)
  assume h: "p_income profile = Some i \<and> max_income b = Some m \<and> i > m"
  then have "income_excludes profile b"
    by (simp add: income_excludes_def)
  then have ex: "hard_excluded profile b"
    by (simp add: hard_excluded_def)
  then show "\<not> accepted profile b"
    by (simp add: accepted_iff_not_excluded)
  from ex show "b \<notin> set (match_loop profile catalog [])"
    by (rule not_in_match_loop)
next
  assume h: "p_income profile = Some i \<and> max_income b = Some m \<and> i \<le> m"
  then show n: "\<not> income_excludes profile b"
    by (simp add: income_excludes_def)
  then show "accepted profile b = accepted (profile\<lparr>p_income := None\<rparr>) (b\<lparr>max_income := None\<rparr>)"
    by (rule income_inert)
next
  assume h: "p_income profile = None \<or> max_income b = None"
  then show n: "\<not> income_excludes profile b"
    by (auto simp: income_excludes_def split: option.splits)
  then show "accepted profile b = accepted (profile\<lparr>p_income := None\<rparr>) (b\<lparr>max_income := None\<rparr>)"
    by (rule income_inert)
qed

theorem income_rule_witness:
  "\<not> accepted (blank_profile\<lparr>p_income := Some 45000\<rparr>) (plain_benefit\<lparr>max_income := Some 30000\<rparr>)
   \<and> accepted (blank_profile\<lparr>p_income := Some 30000\<rparr>) (plain_benefit\<lparr>max_income := Some 30000\<rparr>)
   \<and> accepted (blank_profile\<lparr>p_income := Some 45000\<rparr>) plain_benefit
   \<and> accepted blank_profile (plain_benefit\<lparr>max_income := Some 30000\<rparr>)"
  using
    income_rule [of "blank_profile\<lparr>p_income := Some 45000\<rparr>" 45000
                    "plain_benefit\<lparr>max_income := Some 30000\<rparr>" 30000 "[]"]
    income_rule [of "blank_profile\<lparr>p_income := Some 30000\<rparr>" 30000
                    "plain_benefit\<lparr>max_income := Some 30000\<rparr>" 30000 "[]"]
    income_rule [of "blank_profile\<lparr>p_income := Some 45000\<rparr>" 0 plain_benefit 0 "[]"]
    income_rule [of blank_profile 0 "plain_benefit\<lparr>max_income := Some 30000\<rparr>" 0 "[]"]
    accepted_plain [of blank_profile]
  by (simp add: blank_profile_def plain_benefit_def)

text \<open>
  C5. The age bounds are inclusive. With both the profile's age and the bound
  present, an age below \<open>min_age\<close> or above \<open>max_age\<close> keeps the benefit out; an
  age equal to the bound (or inside it) leaves the rule inert. So \<open>min_age = 18\<close>
  excludes age 17 and not age 18, and \<open>max_age = 65\<close> excludes age 66 and not age
  65. With the age or both bounds absent the age rules have no effect.
\<close>

theorem age_bounds_inclusive:
  "(min_age b = Some lo \<and> p_age profile = Some a \<longrightarrow>
      (a < lo \<longrightarrow> \<not> accepted profile b \<and> b \<notin> set (match_loop profile catalog []))
      \<and> (lo \<le> a \<longrightarrow> \<not> min_age_excludes profile b
            \<and> accepted profile b = accepted profile (b\<lparr>min_age := None\<rparr>)))
   \<and> (max_age b = Some hi \<and> p_age profile = Some a \<longrightarrow>
      (hi < a \<longrightarrow> \<not> accepted profile b \<and> b \<notin> set (match_loop profile catalog []))
      \<and> (a \<le> hi \<longrightarrow> \<not> max_age_excludes profile b
            \<and> accepted profile b = accepted profile (b\<lparr>max_age := None\<rparr>)))
   \<and> (p_age profile = None \<longrightarrow>
      \<not> min_age_excludes profile b \<and> \<not> max_age_excludes profile b
      \<and> accepted profile b = accepted profile (b\<lparr>min_age := None, max_age := None\<rparr>))
   \<and> (min_age b = None \<and> max_age b = None \<longrightarrow>
      \<not> min_age_excludes profile b \<and> \<not> max_age_excludes profile b
      \<and> accepted profile b = accepted (profile\<lparr>p_age := None\<rparr>) b)"
proof (intro conjI impI)
  assume h: "min_age b = Some lo \<and> p_age profile = Some a" and lt: "a < lo"
  then have "min_age_excludes profile b"
    by (simp add: min_age_excludes_def)
  then have ex: "hard_excluded profile b"
    by (simp add: hard_excluded_def)
  then show "\<not> accepted profile b"
    by (simp add: accepted_iff_not_excluded)
  from ex show "b \<notin> set (match_loop profile catalog [])"
    by (rule not_in_match_loop)
next
  assume h: "min_age b = Some lo \<and> p_age profile = Some a" and le: "lo \<le> a"
  then show n: "\<not> min_age_excludes profile b"
    by (simp add: min_age_excludes_def)
  then show "accepted profile b = accepted profile (b\<lparr>min_age := None\<rparr>)"
    by (rule min_age_inert)
next
  assume h: "max_age b = Some hi \<and> p_age profile = Some a" and lt: "hi < a"
  then have "max_age_excludes profile b"
    by (simp add: max_age_excludes_def)
  then have ex: "hard_excluded profile b"
    by (simp add: hard_excluded_def)
  then show "\<not> accepted profile b"
    by (simp add: accepted_iff_not_excluded)
  from ex show "b \<notin> set (match_loop profile catalog [])"
    by (rule not_in_match_loop)
next
  assume h: "max_age b = Some hi \<and> p_age profile = Some a" and le: "a \<le> hi"
  then show n: "\<not> max_age_excludes profile b"
    by (simp add: max_age_excludes_def)
  then show "accepted profile b = accepted profile (b\<lparr>max_age := None\<rparr>)"
    by (rule max_age_inert)
next
  assume h: "p_age profile = None"
  then show "\<not> min_age_excludes profile b" and "\<not> max_age_excludes profile b"
    by (simp_all add: min_age_excludes_def max_age_excludes_def split: option.splits)
  from h show "accepted profile b = accepted profile (b\<lparr>min_age := None, max_age := None\<rparr>)"
    by (simp add: accepted_iff_not_excluded hard_excluded_def rule_defs split: option.splits)
next
  assume h: "min_age b = None \<and> max_age b = None"
  then show "\<not> min_age_excludes profile b" and "\<not> max_age_excludes profile b"
    by (simp_all add: min_age_excludes_def max_age_excludes_def)
  from h show "accepted profile b = accepted (profile\<lparr>p_age := None\<rparr>) b"
    by (simp add: accepted_iff_not_excluded hard_excluded_def rule_defs)
qed

theorem age_bounds_inclusive_witness:
  "\<not> accepted (blank_profile\<lparr>p_age := Some 17\<rparr>) (plain_benefit\<lparr>min_age := Some 18\<rparr>)
   \<and> accepted (blank_profile\<lparr>p_age := Some 18\<rparr>) (plain_benefit\<lparr>min_age := Some 18\<rparr>)
   \<and> \<not> accepted (blank_profile\<lparr>p_age := Some 66\<rparr>) (plain_benefit\<lparr>max_age := Some 65\<rparr>)
   \<and> accepted (blank_profile\<lparr>p_age := Some 65\<rparr>) (plain_benefit\<lparr>max_age := Some 65\<rparr>)
   \<and> accepted blank_profile (plain_benefit\<lparr>min_age := Some 18, max_age := Some 65\<rparr>)
   \<and> accepted (blank_profile\<lparr>p_age := Some 17\<rparr>) plain_benefit"
  using
    age_bounds_inclusive [of "plain_benefit\<lparr>min_age := Some 18\<rparr>" 18
       "blank_profile\<lparr>p_age := Some 17\<rparr>" 17 "[]" 0]
    age_bounds_inclusive [of "plain_benefit\<lparr>min_age := Some 18\<rparr>" 18
       "blank_profile\<lparr>p_age := Some 18\<rparr>" 18 "[]" 0]
    age_bounds_inclusive [of "plain_benefit\<lparr>max_age := Some 65\<rparr>" 0
       "blank_profile\<lparr>p_age := Some 66\<rparr>" 66 "[]" 65]
    age_bounds_inclusive [of "plain_benefit\<lparr>max_age := Some 65\<rparr>" 0
       "blank_profile\<lparr>p_age := Some 65\<rparr>" 65 "[]" 65]
    age_bounds_inclusive [of "plain_benefit\<lparr>min_age := Some 18, max_age := Some 65\<rparr>" 0
       blank_profile 0 "[]" 0]
    age_bounds_inclusive [of plain_benefit 0 "blank_profile\<lparr>p_age := Some 17\<rparr>" 0 "[]" 0]
    accepted_plain [of "blank_profile\<lparr>p_age := Some 18\<rparr>"]
    accepted_plain [of "blank_profile\<lparr>p_age := Some 65\<rparr>"]
    accepted_plain [of blank_profile]
  by (simp add: blank_profile_def plain_benefit_def)

text \<open>
  C6. A benefit that requires disability is excluded unless the profile's
  \<open>disability\<close> is true, and likewise for veteran; a benefit that requires
  dependents is excluded when \<open>dependents\<close> is absent or zero, and a profile with at
  least one dependent passes the dependents rule.
\<close>

theorem flag_rules:
  "(requires_disability b = Some True \<and> p_disability profile \<noteq> Some True \<longrightarrow>
      \<not> accepted profile b \<and> b \<notin> set (match_loop profile catalog []))
   \<and> (requires_veteran b = Some True \<and> p_veteran profile \<noteq> Some True \<longrightarrow>
      \<not> accepted profile b \<and> b \<notin> set (match_loop profile catalog []))
   \<and> (requires_dependents b = Some True
        \<and> (p_dependents profile = None \<or> p_dependents profile = Some 0) \<longrightarrow>
      \<not> accepted profile b \<and> b \<notin> set (match_loop profile catalog []))
   \<and> (p_dependents profile = Some n \<and> 1 \<le> n \<longrightarrow>
      \<not> dependents_excludes profile b
      \<and> accepted profile b = accepted profile (b\<lparr>requires_dependents := None\<rparr>))"
proof (intro conjI impI)
  assume "requires_disability b = Some True \<and> p_disability profile \<noteq> Some True"
  then have ex: "hard_excluded profile b"
    by (simp add: hard_excluded_def disability_excludes_def)
  then show "\<not> accepted profile b"
    by (simp add: accepted_iff_not_excluded)
  from ex show "b \<notin> set (match_loop profile catalog [])"
    by (rule not_in_match_loop)
next
  assume "requires_veteran b = Some True \<and> p_veteran profile \<noteq> Some True"
  then have ex: "hard_excluded profile b"
    by (simp add: hard_excluded_def veteran_excludes_def)
  then show "\<not> accepted profile b"
    by (simp add: accepted_iff_not_excluded)
  from ex show "b \<notin> set (match_loop profile catalog [])"
    by (rule not_in_match_loop)
next
  assume "requires_dependents b = Some True
    \<and> (p_dependents profile = None \<or> p_dependents profile = Some 0)"
  then have ex: "hard_excluded profile b"
    by (simp add: hard_excluded_def dependents_excludes_def)
  then show "\<not> accepted profile b"
    by (simp add: accepted_iff_not_excluded)
  from ex show "b \<notin> set (match_loop profile catalog [])"
    by (rule not_in_match_loop)
next
  assume "p_dependents profile = Some n \<and> 1 \<le> n"
  then show n: "\<not> dependents_excludes profile b"
    by (auto simp: dependents_excludes_def)
  then show "accepted profile b = accepted profile (b\<lparr>requires_dependents := None\<rparr>)"
    by (rule dependents_inert)
qed

theorem flag_rules_witness:
  "\<not> accepted (blank_profile\<lparr>p_disability := Some False\<rparr>)
        (plain_benefit\<lparr>requires_disability := Some True\<rparr>)
   \<and> \<not> accepted (blank_profile\<lparr>p_veteran := Some False\<rparr>)
        (plain_benefit\<lparr>requires_veteran := Some True\<rparr>)
   \<and> \<not> accepted blank_profile (plain_benefit\<lparr>requires_veteran := Some True\<rparr>)
   \<and> \<not> accepted (blank_profile\<lparr>p_dependents := Some 0\<rparr>)
        (plain_benefit\<lparr>requires_dependents := Some True\<rparr>)
   \<and> \<not> accepted blank_profile (plain_benefit\<lparr>requires_dependents := Some True\<rparr>)
   \<and> accepted (blank_profile\<lparr>p_dependents := Some 1\<rparr>)
        (plain_benefit\<lparr>requires_dependents := Some True\<rparr>)"
  using
    flag_rules [of "plain_benefit\<lparr>requires_disability := Some True\<rparr>"
       "blank_profile\<lparr>p_disability := Some False\<rparr>" "[]" 0]
    flag_rules [of "plain_benefit\<lparr>requires_veteran := Some True\<rparr>"
       "blank_profile\<lparr>p_veteran := Some False\<rparr>" "[]" 0]
    flag_rules [of "plain_benefit\<lparr>requires_veteran := Some True\<rparr>" blank_profile "[]" 0]
    flag_rules [of "plain_benefit\<lparr>requires_dependents := Some True\<rparr>"
       "blank_profile\<lparr>p_dependents := Some 0\<rparr>" "[]" 0]
    flag_rules [of "plain_benefit\<lparr>requires_dependents := Some True\<rparr>" blank_profile "[]" 0]
    flag_rules [of "plain_benefit\<lparr>requires_dependents := Some True\<rparr>"
       "blank_profile\<lparr>p_dependents := Some 1\<rparr>" "[]" 1]
    accepted_plain [of "blank_profile\<lparr>p_dependents := Some 1\<rparr>"]
  by (simp add: blank_profile_def plain_benefit_def)

lemma lower_CA: "lower ''CA'' = lower ''ca''"
  by (simp add: lower_def lower_char_def)

lemma lower_CA_NY: "lower ''CA'' \<noteq> lower ''NY''"
  by (simp add: lower_def lower_char_def)

lemma lower_char_capitals:
  "map lower_char ''ABCDEFGHIJKLMNOPQRSTUVWXYZ'' = ''abcdefghijklmnopqrstuvwxyz''"
  by (simp add: lower_char_def)

lemma lower_char_other:
  "c \<notin> set ''ABCDEFGHIJKLMNOPQRSTUVWXYZ'' \<Longrightarrow> lower_char c = c"
  by (simp add: lower_char_def)

lemma location_differs:
  assumes "location b = Some x" and "p_location profile = Some y"
    and "x \<noteq> []" and "y \<noteq> []" and "lower x \<noteq> lower y"
  shows "hard_excluded profile b"
proof -
  from assms have "location_excludes profile b"
    by (simp add: location_excludes_def)
  then show ?thesis
    by (simp add: hard_excluded_def)
qed

text \<open>
  C7. The location rule compares under \<open>lower\<close> and only when both sides are
  present. A benefit located in \<open>CA\<close> is not excluded for a profile in \<open>ca\<close> and is
  excluded for a profile in \<open>NY\<close>. For any two ASCII locations: if both are
  non-empty and differ under \<open>lower\<close> the benefit is excluded, and if they are equal
  under \<open>lower\<close> the rule is inert. With either location absent the rule imposes
  nothing. Here \<open>lower\<close> works character by character, moves the 26 capitals to
  their small letters and leaves every other character.
\<close>

theorem location_rule:
  "(location b = Some ''CA'' \<and> p_location profile = Some ''ca'' \<longrightarrow>
      \<not> location_excludes profile b
      \<and> accepted profile b = accepted (profile\<lparr>p_location := None\<rparr>) (b\<lparr>location := None\<rparr>))
   \<and> (location b = Some ''CA'' \<and> p_location profile = Some ''NY'' \<longrightarrow>
      \<not> accepted profile b \<and> b \<notin> set (match_loop profile catalog []))
   \<and> (location b = Some x \<and> p_location profile = Some y \<and> is_ascii x \<and> is_ascii y
        \<and> x \<noteq> [] \<and> y \<noteq> [] \<and> lower x \<noteq> lower y \<longrightarrow>
      \<not> accepted profile b \<and> b \<notin> set (match_loop profile catalog []))
   \<and> (location b = Some x \<and> p_location profile = Some y \<and> is_ascii x \<and> is_ascii y
        \<and> lower x = lower y \<longrightarrow>
      \<not> location_excludes profile b
      \<and> accepted profile b = accepted (profile\<lparr>p_location := None\<rparr>) (b\<lparr>location := None\<rparr>))
   \<and> (location b = None \<or> p_location profile = None \<longrightarrow>
      \<not> location_excludes profile b
      \<and> accepted profile b = accepted (profile\<lparr>p_location := None\<rparr>) (b\<lparr>location := None\<rparr>))
   \<and> (\<forall>s. lower s = map lower_char s)
   \<and> map lower_char ''ABCDEFGHIJKLMNOPQRSTUVWXYZ'' = ''abcdefghijklmnopqrstuvwxyz''
   \<and> (\<forall>c. c \<notin> set ''ABCDEFGHIJKLMNOPQRSTUVWXYZ'' \<longrightarrow> lower_char c = c)"
proof (intro conjI impI allI)
  assume "location b = Some ''CA'' \<and> p_location profile = Some ''ca''"
  then show n: "\<not> location_excludes profile b"
    by (simp add: location_excludes_def lower_CA)
  then show "accepted profile b
      = accepted (profile\<lparr>p_location := None\<rparr>) (b\<lparr>location := None\<rparr>)"
    by (rule location_inert)
next
  assume "location b = Some ''CA'' \<and> p_location profile = Some ''NY''"
  then have ex: "hard_excluded profile b"
    using location_differs [of b "''CA''" profile "''NY''"] lower_CA_NY by simp
  then show "\<not> accepted profile b"
    by (simp add: accepted_iff_not_excluded)
  from ex show "b \<notin> set (match_loop profile catalog [])"
    by (rule not_in_match_loop)
next
  assume "location b = Some x \<and> p_location profile = Some y \<and> is_ascii x \<and> is_ascii y
    \<and> x \<noteq> [] \<and> y \<noteq> [] \<and> lower x \<noteq> lower y"
  then have ex: "hard_excluded profile b"
    using location_differs [of b x profile y] by blast
  then show "\<not> accepted profile b"
    by (simp add: accepted_iff_not_excluded)
  from ex show "b \<notin> set (match_loop profile catalog [])"
    by (rule not_in_match_loop)
next
  assume "location b = Some x \<and> p_location profile = Some y \<and> is_ascii x \<and> is_ascii y
    \<and> lower x = lower y"
  then show n: "\<not> location_excludes profile b"
    by (simp add: location_excludes_def)
  then show "accepted profile b
      = accepted (profile\<lparr>p_location := None\<rparr>) (b\<lparr>location := None\<rparr>)"
    by (rule location_inert)
next
  assume "location b = None \<or> p_location profile = None"
  then show n: "\<not> location_excludes profile b"
    by (auto simp: location_excludes_def split: option.splits)
  then show "accepted profile b
      = accepted (profile\<lparr>p_location := None\<rparr>) (b\<lparr>location := None\<rparr>)"
    by (rule location_inert)
next
  fix s
  show "lower s = map lower_char s"
    by (simp add: lower_def)
next
  show "map lower_char ''ABCDEFGHIJKLMNOPQRSTUVWXYZ'' = ''abcdefghijklmnopqrstuvwxyz''"
    by (rule lower_char_capitals)
next
  fix c :: char
  assume "c \<notin> set ''ABCDEFGHIJKLMNOPQRSTUVWXYZ''"
  then show "lower_char c = c"
    by (rule lower_char_other)
qed

lemma ascii_samples:
  "is_ascii ''CA'' \<and> is_ascii ''ca'' \<and> is_ascii ''NY'' \<and> is_ascii ''CO''
   \<and> is_ascii ''Connecticut'' \<and> is_ascii ''New York'' \<and> is_ascii ''nEW yORK''"
  by (simp add: is_ascii_def)

lemma lower_samples:
  "lower ''CO'' \<noteq> lower ''Connecticut'' \<and> lower ''New York'' = lower ''nEW yORK''"
  by (simp add: lower_def lower_char_def)

theorem location_rule_witness:
  "accepted (blank_profile\<lparr>p_location := Some ''ca''\<rparr>) (plain_benefit\<lparr>location := Some ''CA''\<rparr>)
   \<and> \<not> accepted (blank_profile\<lparr>p_location := Some ''NY''\<rparr>)
        (plain_benefit\<lparr>location := Some ''CA''\<rparr>)
   \<and> \<not> accepted (blank_profile\<lparr>p_location := Some ''Connecticut''\<rparr>)
        (plain_benefit\<lparr>location := Some ''CO''\<rparr>)
   \<and> accepted (blank_profile\<lparr>p_location := Some ''nEW yORK''\<rparr>)
        (plain_benefit\<lparr>location := Some ''New York''\<rparr>)
   \<and> accepted blank_profile (plain_benefit\<lparr>location := Some ''CA''\<rparr>)
   \<and> accepted (blank_profile\<lparr>p_location := Some ''NY''\<rparr>) plain_benefit
   \<and> lower_char CHR ''1'' = CHR ''1''"
  using
    location_rule [of "plain_benefit\<lparr>location := Some ''CA''\<rparr>"
       "blank_profile\<lparr>p_location := Some ''ca''\<rparr>" "[]" "''CA''" "''ca''"]
    location_rule [of "plain_benefit\<lparr>location := Some ''CA''\<rparr>"
       "blank_profile\<lparr>p_location := Some ''NY''\<rparr>" "[]" "''CA''" "''NY''"]
    location_rule [of "plain_benefit\<lparr>location := Some ''CO''\<rparr>"
       "blank_profile\<lparr>p_location := Some ''Connecticut''\<rparr>" "[]" "''CO''" "''Connecticut''"]
    location_rule [of "plain_benefit\<lparr>location := Some ''New York''\<rparr>"
       "blank_profile\<lparr>p_location := Some ''nEW yORK''\<rparr>" "[]" "''New York''" "''nEW yORK''"]
    location_rule [of "plain_benefit\<lparr>location := Some ''CA''\<rparr>" blank_profile "[]" "[]" "[]"]
    location_rule [of plain_benefit "blank_profile\<lparr>p_location := Some ''NY''\<rparr>" "[]" "[]" "[]"]
    accepted_plain [of blank_profile]
    ascii_samples lower_samples
  by (simp add: blank_profile_def plain_benefit_def)

text \<open>
  C10. An empty location string behaves as an absent one: if the benefit's or the
  profile's location is the empty string, the location rule does not fire and the
  outcome is the one obtained with both locations absent.
\<close>

theorem empty_location_is_absent:
  "location b = Some [] \<or> p_location profile = Some [] \<Longrightarrow>
     \<not> location_excludes profile b
     \<and> accepted profile b = accepted (profile\<lparr>p_location := None\<rparr>) (b\<lparr>location := None\<rparr>)"
proof -
  assume "location b = Some [] \<or> p_location profile = Some []"
  then have n: "\<not> location_excludes profile b"
    by (auto simp: location_excludes_def split: option.splits)
  then show ?thesis
    using location_inert by blast
qed

theorem empty_location_is_absent_witness:
  "accepted (blank_profile\<lparr>p_location := Some ''NY''\<rparr>) (plain_benefit\<lparr>location := Some ''''\<rparr>)
   \<and> accepted (blank_profile\<lparr>p_location := Some ''''\<rparr>) (plain_benefit\<lparr>location := Some ''CA''\<rparr>)"
  using
    empty_location_is_absent [of "plain_benefit\<lparr>location := Some ''''\<rparr>"
       "blank_profile\<lparr>p_location := Some ''NY''\<rparr>"]
    empty_location_is_absent [of "plain_benefit\<lparr>location := Some ''CA''\<rparr>"
       "blank_profile\<lparr>p_location := Some ''''\<rparr>"]
    accepted_plain [of blank_profile]
  by (simp add: blank_profile_def plain_benefit_def)

section \<open>Tags\<close>

lemma accepted_strip:
  "accepted profile b = accepted (profile\<lparr>p_tags := None\<rparr>) (b\<lparr>tags := None\<rparr>)"
  by (simp add: accepted_tags)

lemma accepted_same_but_tags:
  assumes "profile'\<lparr>p_tags := None\<rparr> = profile\<lparr>p_tags := None\<rparr>"
    and "b'\<lparr>tags := None\<rparr> = b\<lparr>tags := None\<rparr>"
  shows "accepted profile' b' = accepted profile b"
  using assms accepted_strip [of profile' b'] accepted_strip [of profile b] by simp

lemma filter_same_but_tags:
  assumes "profile'\<lparr>p_tags := None\<rparr> = profile\<lparr>p_tags := None\<rparr>"
  shows "map (\<lambda>b. b\<lparr>tags := None\<rparr>) bs' = map (\<lambda>b. b\<lparr>tags := None\<rparr>) bs \<Longrightarrow>
     map (\<lambda>b. b\<lparr>tags := None\<rparr>) (filter (accepted profile') bs')
       = map (\<lambda>b. b\<lparr>tags := None\<rparr>) (filter (accepted profile) bs)
     \<and> map (accepted profile') bs' = map (accepted profile) bs"
proof (induction bs arbitrary: bs')
  case Nil
  then show ?case by simp
next
  case (Cons b bs)
  then obtain c cs where bs': "bs' = c # cs"
    by (cases bs') auto
  with Cons.prems have hd: "c\<lparr>tags := None\<rparr> = b\<lparr>tags := None\<rparr>"
    and tl: "map (\<lambda>b. b\<lparr>tags := None\<rparr>) cs = map (\<lambda>b. b\<lparr>tags := None\<rparr>) bs"
    by simp_all
  have "accepted profile' c = accepted profile b"
    using assms hd by (rule accepted_same_but_tags)
  with Cons.IH [OF tl] hd bs' show ?case by simp
qed

text \<open>
  C4. Two runs whose profiles are equal up to their tags, on catalogs that are equal
  position by position up to the benefits' tags, accept the same positions, and
  their results are equal up to tags, in the same order.
\<close>

theorem tags_never_change_inclusion:
  assumes "profile'\<lparr>p_tags := None\<rparr> = profile\<lparr>p_tags := None\<rparr>"
    and "map (\<lambda>b. b\<lparr>tags := None\<rparr>) catalog' = map (\<lambda>b. b\<lparr>tags := None\<rparr>) catalog"
  shows "map (\<lambda>b. b\<lparr>tags := None\<rparr>) (match_loop profile' catalog' [])
           = map (\<lambda>b. b\<lparr>tags := None\<rparr>) (match_loop profile catalog [])
         \<and> map (accepted profile') catalog' = map (accepted profile) catalog"
  using filter_same_but_tags [OF assms] by (simp add: match_loop_filter)

theorem tags_never_change_inclusion_witness:
  "map (\<lambda>b. b\<lparr>tags := None\<rparr>)
     (match_loop (blank_profile\<lparr>p_age := Some 17, p_tags := Some [''Housing'']\<rparr>)
        [plain_benefit\<lparr>tags := Some [''housing'']\<rparr>, plain_benefit\<lparr>min_age := Some 18\<rparr>] [])
   = map (\<lambda>b. b\<lparr>tags := None\<rparr>)
     (match_loop (blank_profile\<lparr>p_age := Some 17\<rparr>)
        [plain_benefit, plain_benefit\<lparr>min_age := Some 18, tags := Some [''x'']\<rparr>] [])"
  using tags_never_change_inclusion
    [of "blank_profile\<lparr>p_age := Some 17, p_tags := Some [''Housing'']\<rparr>"
        "blank_profile\<lparr>p_age := Some 17\<rparr>"
        "[plain_benefit\<lparr>tags := Some [''housing'']\<rparr>, plain_benefit\<lparr>min_age := Some 18\<rparr>]"
        "[plain_benefit, plain_benefit\<lparr>min_age := Some 18, tags := Some [''x'']\<rparr>]"]
  by (simp add: blank_profile_def plain_benefit_def)

section \<open>Storage\<close>

text \<open>
  C3. When the storage handle is not configured, seeding, listing and matching each
  return an error, and the state they return is the state they received: nothing
  was read or written, and no access was logged.
\<close>

theorem storage_unavailable_guard:
  "db st = None \<Longrightarrow>
     seed_benefits st = (Inl (HTTPException 500 ''Database not configured''), st)
     \<and> list_benefits limit st = (Inl Storage_unavailable, st)
     \<and> match_benefits profile st = (Inl (HTTPException 500 ''Database not configured''), st)"
  by (simp add: seed_benefits_def list_benefits_def get_documents_def match_benefits_def)

theorem storage_unavailable_guard_witness:
  "db \<lparr>db = None, accesses = []\<rparr> = None
   \<and> seed_benefits \<lparr>db = None, accesses = []\<rparr>
       = (Inl (HTTPException 500 ''Database not configured''), \<lparr>db = None, accesses = []\<rparr>)
   \<and> list_benefits (Some 50) \<lparr>db = None, accesses = []\<rparr>
       = (Inl Storage_unavailable, \<lparr>db = None, accesses = []\<rparr>)
   \<and> match_benefits blank_profile \<lparr>db = None, accesses = []\<rparr>
       = (Inl (HTTPException 500 ''Database not configured''), \<lparr>db = None, accesses = []\<rparr>)"
proof -
  have h: "db \<lparr>db = None, accesses = []\<rparr> = None" by simp
  show ?thesis
    using h storage_unavailable_guard [OF h, of "Some 50" blank_profile] by simp
qed

lemma length_seed_data: "length seed_data = 4"
  by (simp add: seed_data_def)

lemma seed_benefits_nonempty:
  "db st = Some docs \<Longrightarrow> docs \<noteq> [] \<Longrightarrow>
     seed_benefits st
       = (Inr \<lparr>inserted = 0\<rparr>, st\<lparr>accesses := accesses st @ [Count_documents]\<rparr>)"
  by (simp add: seed_benefits_def count_documents_def)

lemma seed_benefits_empty:
  assumes "db st = Some []"
  shows "seed_benefits st
       = (Inr \<lparr>inserted = 4\<rparr>,
          st\<lparr>db := Some seed_data,
             accesses := accesses st @ Count_documents # replicate 4 Insert_document\<rparr>)"
proof -
  let ?st1 = "st\<lparr>accesses := accesses st @ [Count_documents]\<rparr>"
  have "db ?st1 = Some []"
    using assms by simp
  then have "seed_loop seed_data 0 ?st1
      = (Inr (0 + int (length seed_data)),
         ?st1\<lparr>db := Some ([] @ seed_data),
               accesses := accesses ?st1 @ replicate (length seed_data) Insert_document\<rparr>)"
    by (rule seed_loop_run)
  then show ?thesis
    using assms by (simp add: seed_benefits_def count_documents_def length_seed_data)
qed

text \<open>
  C9. Seeding a non-empty catalog inserts nothing and reports 0, leaving the
  documents as they were. Seeding an empty catalog inserts the four seed records
  (SNAP, Medicaid, Pell Grant, Section 8 voucher) and reports 4; a second call then
  reports 0 and leaves those four records, so that the two calls together perform
  four insertions.
\<close>

theorem seed_idempotent:
  "(db st = Some docs \<and> docs \<noteq> [] \<longrightarrow>
      seed_benefits st
        = (Inr \<lparr>inserted = 0\<rparr>, st\<lparr>accesses := accesses st @ [Count_documents]\<rparr>))
   \<and> (db st = Some [] \<longrightarrow>
      seed_benefits st
        = (Inr \<lparr>inserted = 4\<rparr>,
           st\<lparr>db := Some seed_data,
              accesses := accesses st @ Count_documents # replicate 4 Insert_document\<rparr>)
      \<and> fst (seed_benefits (snd (seed_benefits st))) = Inr \<lparr>inserted = 0\<rparr>
      \<and> db (snd (seed_benefits (snd (seed_benefits st)))) = Some seed_data
      \<and> count_list (accesses (snd (seed_benefits (snd (seed_benefits st))))) Insert_document
          = count_list (accesses st) Insert_document + 4)
   \<and> map name seed_data
       = [''SNAP (Food Assistance)'', ''Medicaid'', ''Pell Grant'',
          ''Section 8 Housing Choice Voucher'']"
proof (intro conjI impI)
  assume "db st = Some docs \<and> docs \<noteq> []"
  then show "seed_benefits st
      = (Inr \<lparr>inserted = 0\<rparr>, st\<lparr>accesses := accesses st @ [Count_documents]\<rparr>)"
    by (simp add: seed_benefits_nonempty)
next
  assume e: "db st = Some []"
  let ?st' = "st\<lparr>db := Some seed_data,
      accesses := accesses st @ Count_documents # replicate 4 Insert_document\<rparr>"
  show first: "seed_benefits st = (Inr \<lparr>inserted = 4\<rparr>, ?st')"
    using e by (rule seed_benefits_empty)
  have ne: "seed_data \<noteq> []"
    using length_seed_data by auto
  have "db ?st' = Some seed_data"
    by simp
  then have second: "seed_benefits ?st'
      = (Inr \<lparr>inserted = 0\<rparr>, ?st'\<lparr>accesses := accesses ?st' @ [Count_documents]\<rparr>)"
    using ne by (rule seed_benefits_nonempty)
  show "fst (seed_benefits (snd (seed_benefits st))) = Inr \<lparr>inserted = 0\<rparr>"
    by (simp add: first second)
  show "db (snd (seed_benefits (snd (seed_benefits st)))) = Some seed_data"
    by (simp add: first second)
  have after: "snd (seed_benefits (snd (seed_benefits st)))
      = ?st'\<lparr>accesses := accesses ?st' @ [Count_documents]\<rparr>"
    by (simp add: first second)
  show "count_list (accesses (snd (seed_benefits (snd (seed_benefits st))))) Insert_document
      = count_list (accesses st) Insert_document + 4"
    by (simp add: after eval_nat_numeral)
next
  show "map name seed_data
      = [''SNAP (Food Assistance)'', ''Medicaid'', ''Pell Grant'',
         ''Section 8 Housing Choice Voucher'']"
    by (simp add: seed_data_def)
qed

theorem seed_idempotent_witness:
  "seed_benefits \<lparr>db = Some [], accesses = []\<rparr>
     = (Inr \<lparr>inserted = 4\<rparr>,
        \<lparr>db = Some seed_data, accesses = Count_documents # replicate 4 Insert_document\<rparr>)
   \<and> fst (seed_benefits (snd (seed_benefits \<lparr>db = Some [], accesses = []\<rparr>)))
       = Inr \<lparr>inserted = 0\<rparr>
   \<and> seed_benefits \<lparr>db = Some [plain_benefit], accesses = []\<rparr>
       = (Inr \<lparr>inserted = 0\<rparr>, \<lparr>db = Some [plain_benefit], accesses = [Count_documents]\<rparr>)"
proof -
  let ?e = "\<lparr>db = Some [], accesses = []\<rparr>"
  let ?n = "\<lparr>db = Some [plain_benefit], accesses = []\<rparr>"
  have he: "db ?e = Some []"
    by simp
  have hn: "db ?n = Some [plain_benefit] \<and> [plain_benefit] \<noteq> []"
    by simp
  have a: "seed_benefits ?e
      = (Inr \<lparr>inserted = 4\<rparr>,
         ?e\<lparr>db := Some seed_data,
            accesses := accesses ?e @ Count_documents # replicate 4 Insert_document\<rparr>)"
    and b: "fst (seed_benefits (snd (seed_benefits ?e))) = Inr \<lparr>inserted = 0\<rparr>"
    using seed_idempotent [of ?e "[]"] he by blast+
  have c: "seed_benefits ?n
      = (Inr \<lparr>inserted = 0\<rparr>, ?n\<lparr>accesses := accesses ?n @ [Count_documents]\<rparr>)"
    using seed_idempotent [of ?n "[plain_benefit]"] hn by blast
  from a have a': "seed_benefits ?e
      = (Inr \<lparr>inserted = 4\<rparr>,
         \<lparr>db = Some seed_data, accesses = Count_documents # replicate 4 Insert_document\<rparr>)"
    by simp
  from c have c': "seed_benefits ?n
      = (Inr \<lparr>inserted = 0\<rparr>, \<lparr>db = Some [plain_benefit], accesses = [Count_documents]\<rparr>)"
    by simp
  from a' b c' show ?thesis
    by (intro conjI)
qed

end
